theory Spec2Isabelle
  imports Complex_Main "HOL-Library.Sublist" "HOL-Library.Char_ord" "HOL-Library.List_Lexorder"
begin

section \<open>Name sanitizer\<close>

text \<open>
  \<^verbatim>\<open>print_name\<close> of \<^verbatim>\<open>CodeGen_Coli.cpp\<close>. The character classes are those of the C
  locale, in which the generator runs: \<^verbatim>\<open>isalpha\<close> holds for the 52 ASCII letters and
  \<^verbatim>\<open>isalnum\<close> for letters and the ten digits.
\<close>

definition isalpha :: "char \<Rightarrow> bool" where
  "isalpha c =
     (let n = (of_char c :: nat) in (65 \<le> n \<and> n \<le> 90) \<or> (97 \<le> n \<and> n \<le> 122))"

definition isdigit :: "char \<Rightarrow> bool" where
  "isdigit c = (let n = (of_char c :: nat) in 48 \<le> n \<and> n \<le> 57)"

definition isalnum :: "char \<Rightarrow> bool" where
  "isalnum c = (isalpha c \<or> isdigit c)"

text \<open>One round of the loop over \<^verbatim>\<open>name[i]\<close>: what is written for one character.\<close>

definition print_name_char :: "char \<Rightarrow> string" where
  "print_name_char c =
     (if c = CHR ''.'' then ''_''
      else if c = CHR ''$'' then ''__''
      else if c \<noteq> CHR ''_'' \<and> \<not> isalnum c then ''___''
      else [c])"

fun print_name_loop :: "string \<Rightarrow> string" where
  "print_name_loop [] = []"
| "print_name_loop (c # cs) = print_name_char c @ print_name_loop cs"

text \<open>\<^verbatim>\<open>name[0]\<close> of an empty \<^verbatim>\<open>std::string\<close> is the terminating null character.\<close>

definition name0 :: "string \<Rightarrow> char" where
  "name0 name = (case name of [] \<Rightarrow> CHR 0x00 | c # _ \<Rightarrow> c)"

definition print_name :: "string \<Rightarrow> string" where
  "print_name name = (if isalpha (name0 name) then ''_'' else []) @ print_name_loop name"

text \<open>The characters of a sanitized name: the underscore, letters and digits.\<close>

definition ident_char :: "char \<Rightarrow> bool" where
  "ident_char c = (c = CHR ''_'' \<or> isalnum c)"

section \<open>The host IR\<close>

text \<open>
  The node kinds of the expression and statement tree the generator walks. Their C++
  definitions (\<^verbatim>\<open>IR.h\<close>, \<^verbatim>\<open>Type.h\<close>) are not among the sources; the datatypes
  below carry the fields that \<^verbatim>\<open>CodeGen_Coli.cpp\<close> reads or copies. The binary
  operator nodes, whose visitors differ only in the text between the operands, share the
  constructor \<open>Bin\<close>, tagged with the node kind.
\<close>

datatype type_code = TInt | TUInt | TFloat | THandle

datatype halide_type = Type (code: type_code) (bits: nat) (lanes: nat)

definition is_uint :: "halide_type \<Rightarrow> bool" where
  "is_uint t = (code t = TUInt)"

definition is_int :: "halide_type \<Rightarrow> bool" where
  "is_int t = (code t = TInt)"

definition is_float :: "halide_type \<Rightarrow> bool" where
  "is_float t = (code t = TFloat)"

definition is_bool :: "halide_type \<Rightarrow> bool" where
  "is_bool t = (code t = TUInt \<and> bits t = 1)"

definition Int32 :: halide_type where
  "Int32 = Type TInt 32 1"

definition Bool_type :: "nat \<Rightarrow> halide_type" where
  "Bool_type l = Type TUInt 1 l"

datatype CallType = Image | Extern | PureExtern | Halide | Intrinsic | PureIntrinsic

datatype binop =
  Add | Sub | Mul | Div | Mod | Min_op | Max_op
  | EQ | NE | LT | LE | GT | GE | And_op | Or_op

datatype expr =
  IntImm halide_type int
  | UIntImm halide_type nat
  | FloatImm halide_type real
  | StringImm string
  | Cast halide_type expr
  | Variable halide_type string bool bool
  | Bin binop expr expr
  | Not_op expr
  | Select expr expr expr
  | Load halide_type string expr
  | Ramp expr expr nat
  | Broadcast expr nat
  | Call halide_type string "expr list" CallType
  | Let_expr string expr expr

text \<open>
  \<open>Variable t name has_param has_image\<close>: the two flags say whether the node's
  \<^verbatim>\<open>param\<close> and \<^verbatim>\<open>image\<close> are defined. A \<open>Block\<close> has an optional rest and an
  \<open>IfThenElse\<close> an optional else case (an undefined \<^verbatim>\<open>Stmt\<close> in the source); every
  other child is defined by construction of the tree. The loop kind and the device of a
  \<open>For\<close> are enumeration values that the generator only copies.
\<close>

datatype stmt =
  LetStmt string expr stmt
  | AssertStmt expr expr
  | ProducerConsumer string bool stmt
  | For string expr expr nat nat stmt
  | Store string expr expr
  | Provide string "expr list" "expr list"
  | Allocate string halide_type "expr list" expr stmt
  | Free string
  | Realize string "halide_type list" "(expr \<times> expr) list" expr stmt
  | Block stmt "stmt option"
  | IfThenElse expr stmt "stmt option"
  | Evaluate expr

fun is_Variable :: "expr \<Rightarrow> bool" where
  "is_Variable (Variable t n p i) = True"
| "is_Variable e = False"

fun is_Block :: "stmt \<Rightarrow> bool" where
  "is_Block (Block a b) = True"
| "is_Block s = False"

text \<open>
  Modelled from the spec: \<^verbatim>\<open>Expr::type()\<close> (\<^verbatim>\<open>IR.h\<close>, not among the sources). Every
  node of the host IR records its type; the operator nodes here recompute it from their
  operands as the host's constructors do.
\<close>

fun is_comparison :: "binop \<Rightarrow> bool" where
  "is_comparison op = (op = EQ \<or> op = NE \<or> op = LT \<or> op = LE \<or> op = GT \<or> op = GE
     \<or> op = And_op \<or> op = Or_op)"

fun type_of :: "expr \<Rightarrow> halide_type" where
  "type_of (IntImm t v) = t"
| "type_of (UIntImm t v) = t"
| "type_of (FloatImm t v) = t"
| "type_of (StringImm s) = Type THandle 64 1"
| "type_of (Cast t e) = t"
| "type_of (Variable t n p i) = t"
| "type_of (Bin op a b) =
     (if is_comparison op then Bool_type (lanes (type_of a)) else type_of a)"
| "type_of (Not_op a) = Bool_type (lanes (type_of a))"
| "type_of (Select c a b) = type_of a"
| "type_of (Load t n i) = t"
| "type_of (Ramp b s l) = Type (code (type_of b)) (bits (type_of b)) l"
| "type_of (Broadcast v l) = Type (code (type_of v)) (bits (type_of v)) l"
| "type_of (Call t n args ct) = t"
| "type_of (Let_expr n v b) = type_of b"

text \<open>
  Modelled from the spec: \<^verbatim>\<open>is_const\<close> and \<^verbatim>\<open>is_zero\<close> (\<^verbatim>\<open>IROperator.h\<close>, not
  among the sources). A compile-time constant is a literal, or a cast, ramp or broadcast
  of constants; zero is a zero literal, or a cast or broadcast of zero.
\<close>

fun is_const :: "expr \<Rightarrow> bool" where
  "is_const (IntImm t v) = True"
| "is_const (UIntImm t v) = True"
| "is_const (FloatImm t v) = True"
| "is_const (StringImm s) = True"
| "is_const (Cast t e) = is_const e"
| "is_const (Ramp b s l) = (is_const b \<and> is_const s)"
| "is_const (Broadcast v l) = is_const v"
| "is_const e = False"

fun is_zero :: "expr \<Rightarrow> bool" where
  "is_zero (IntImm t v) = (v = 0)"
| "is_zero (UIntImm t v) = (v = 0)"
| "is_zero (FloatImm t v) = (v = 0)"
| "is_zero (Cast t e) = is_zero e"
| "is_zero (Broadcast v l) = is_zero v"
| "is_zero e = False"

text \<open>
  Modelled from the spec: \<^verbatim>\<open>substitute\<close> and \<^verbatim>\<open>substitute_in_all_lets\<close>
  (\<^verbatim>\<open>Substitute.h\<close>, not among the sources). \<open>substitute m e\<close> replaces every free
  variable of \<open>e\<close> that \<open>m\<close> binds by its image; \<open>substitute_in_all_lets\<close> inlines
  every expression-level let, everywhere in the tree, and keeps statement-level lets.
\<close>

fun substitute :: "(string \<rightharpoonup> expr) \<Rightarrow> expr \<Rightarrow> expr" where
  "substitute m (IntImm t v) = IntImm t v"
| "substitute m (UIntImm t v) = UIntImm t v"
| "substitute m (FloatImm t v) = FloatImm t v"
| "substitute m (StringImm s) = StringImm s"
| "substitute m (Cast t e) = Cast t (substitute m e)"
| "substitute m (Variable t n p i) =
     (case m n of None \<Rightarrow> Variable t n p i | Some r \<Rightarrow> r)"
| "substitute m (Bin op a b) = Bin op (substitute m a) (substitute m b)"
| "substitute m (Not_op a) = Not_op (substitute m a)"
| "substitute m (Select c a b) = Select (substitute m c) (substitute m a) (substitute m b)"
| "substitute m (Load t n i) = Load t n (substitute m i)"
| "substitute m (Ramp b s l) = Ramp (substitute m b) (substitute m s) l"
| "substitute m (Broadcast v l) = Broadcast (substitute m v) l"
| "substitute m (Call t n args ct) = Call t n (map (substitute m) args) ct"
| "substitute m (Let_expr n v b) = Let_expr n (substitute m v) (substitute (m(n := None)) b)"

fun substitute_in_all_lets :: "expr \<Rightarrow> expr" where
  "substitute_in_all_lets (IntImm t v) = IntImm t v"
| "substitute_in_all_lets (UIntImm t v) = UIntImm t v"
| "substitute_in_all_lets (FloatImm t v) = FloatImm t v"
| "substitute_in_all_lets (StringImm s) = StringImm s"
| "substitute_in_all_lets (Cast t e) = Cast t (substitute_in_all_lets e)"
| "substitute_in_all_lets (Variable t n p i) = Variable t n p i"
| "substitute_in_all_lets (Bin op a b) =
     Bin op (substitute_in_all_lets a) (substitute_in_all_lets b)"
| "substitute_in_all_lets (Not_op a) = Not_op (substitute_in_all_lets a)"
| "substitute_in_all_lets (Select c a b) =
     Select (substitute_in_all_lets c) (substitute_in_all_lets a) (substitute_in_all_lets b)"
| "substitute_in_all_lets (Load t n i) = Load t n (substitute_in_all_lets i)"
| "substitute_in_all_lets (Ramp b s l) =
     Ramp (substitute_in_all_lets b) (substitute_in_all_lets s) l"
| "substitute_in_all_lets (Broadcast v l) = Broadcast (substitute_in_all_lets v) l"
| "substitute_in_all_lets (Call t n args ct) = Call t n (map substitute_in_all_lets args) ct"
| "substitute_in_all_lets (Let_expr n v b) =
     substitute [n \<mapsto> substitute_in_all_lets v] (substitute_in_all_lets b)"

fun substitute_in_all_lets_stmt :: "stmt \<Rightarrow> stmt" where
  "substitute_in_all_lets_stmt (LetStmt n v b) =
     LetStmt n (substitute_in_all_lets v) (substitute_in_all_lets_stmt b)"
| "substitute_in_all_lets_stmt (AssertStmt c m) =
     AssertStmt (substitute_in_all_lets c) (substitute_in_all_lets m)"
| "substitute_in_all_lets_stmt (ProducerConsumer n p b) =
     ProducerConsumer n p (substitute_in_all_lets_stmt b)"
| "substitute_in_all_lets_stmt (For n mn ex ft api b) =
     For n (substitute_in_all_lets mn) (substitute_in_all_lets ex) ft api
       (substitute_in_all_lets_stmt b)"
| "substitute_in_all_lets_stmt (Store n v i) =
     Store n (substitute_in_all_lets v) (substitute_in_all_lets i)"
| "substitute_in_all_lets_stmt (Provide n vs as) =
     Provide n (map substitute_in_all_lets vs) (map substitute_in_all_lets as)"
| "substitute_in_all_lets_stmt (Allocate n t es c b) =
     Allocate n t (map substitute_in_all_lets es) (substitute_in_all_lets c)
       (substitute_in_all_lets_stmt b)"
| "substitute_in_all_lets_stmt (Free n) = Free n"
| "substitute_in_all_lets_stmt (Realize n ts bs c b) =
     Realize n ts
       (map (\<lambda>r. (substitute_in_all_lets (fst r), substitute_in_all_lets (snd r))) bs)
       (substitute_in_all_lets c) (substitute_in_all_lets_stmt b)"
| "substitute_in_all_lets_stmt (Block a r) =
     Block (substitute_in_all_lets_stmt a) (map_option substitute_in_all_lets_stmt r)"
| "substitute_in_all_lets_stmt (IfThenElse c t e) =
     IfThenElse (substitute_in_all_lets c) (substitute_in_all_lets_stmt t)
       (map_option substitute_in_all_lets_stmt e)"
| "substitute_in_all_lets_stmt (Evaluate e) = Evaluate (substitute_in_all_lets e)"

section \<open>Normalization of variable names\<close>

text \<open>
  \<^verbatim>\<open>NormalizeVariableName\<close>: the names of loops, lets and variables are sanitized; the
  mutator rebuilds every other node from its mutated children.
\<close>

fun normalize :: "expr \<Rightarrow> expr" where
  "normalize (IntImm t v) = IntImm t v"
| "normalize (UIntImm t v) = UIntImm t v"
| "normalize (FloatImm t v) = FloatImm t v"
| "normalize (StringImm s) = StringImm s"
| "normalize (Cast t e) = Cast t (normalize e)"
| "normalize (Variable t n p i) = Variable t (print_name n) p i"
| "normalize (Bin op a b) = Bin op (normalize a) (normalize b)"
| "normalize (Not_op a) = Not_op (normalize a)"
| "normalize (Select c a b) = Select (normalize c) (normalize a) (normalize b)"
| "normalize (Load t n i) = Load t n (normalize i)"
| "normalize (Ramp b s l) = Ramp (normalize b) (normalize s) l"
| "normalize (Broadcast v l) = Broadcast (normalize v) l"
| "normalize (Call t n args ct) = Call t n (map normalize args) ct"
| "normalize (Let_expr n v b) = Let_expr (print_name n) (normalize v) (normalize b)"

fun normalize_stmt :: "stmt \<Rightarrow> stmt" where
  "normalize_stmt (LetStmt n v b) = LetStmt (print_name n) (normalize v) (normalize_stmt b)"
| "normalize_stmt (AssertStmt c m) = AssertStmt (normalize c) (normalize m)"
| "normalize_stmt (ProducerConsumer n p b) = ProducerConsumer n p (normalize_stmt b)"
| "normalize_stmt (For n mn ex ft api b) =
     For (print_name n) (normalize mn) (normalize ex) ft api (normalize_stmt b)"
| "normalize_stmt (Store n v i) = Store n (normalize v) (normalize i)"
| "normalize_stmt (Provide n vs as) = Provide n (map normalize vs) (map normalize as)"
| "normalize_stmt (Allocate n t es c b) =
     Allocate n t (map normalize es) (normalize c) (normalize_stmt b)"
| "normalize_stmt (Free n) = Free n"
| "normalize_stmt (Realize n ts bs c b) =
     Realize n ts (map (\<lambda>r. (normalize (fst r), normalize (snd r))) bs) (normalize c)
       (normalize_stmt b)"
| "normalize_stmt (Block a r) = Block (normalize_stmt a) (map_option normalize_stmt r)"
| "normalize_stmt (IfThenElse c t e) =
     IfThenElse (normalize c) (normalize_stmt t) (map_option normalize_stmt e)"
| "normalize_stmt (Evaluate e) = Evaluate (normalize e)"

section \<open>Let-free expressions\<close>

fun let_free :: "expr \<Rightarrow> bool" where
  "let_free (Cast t e) = let_free e"
| "let_free (Bin op a b) = (let_free a \<and> let_free b)"
| "let_free (Not_op a) = let_free a"
| "let_free (Select c a b) = (let_free c \<and> let_free a \<and> let_free b)"
| "let_free (Load t n i) = let_free i"
| "let_free (Ramp b s l) = (let_free b \<and> let_free s)"
| "let_free (Broadcast v l) = let_free v"
| "let_free (Call t n args ct) = list_all let_free args"
| "let_free (Let_expr n v b) = False"
| "let_free e = True"

lemma substitute_let_free:
  "let_free b \<Longrightarrow> (\<And>n r. m n = Some r \<Longrightarrow> let_free r) \<Longrightarrow> let_free (substitute m b)"
  by (induction b arbitrary: m) (auto simp: list_all_iff split: option.splits)

lemma substitute_in_all_lets_let_free: "let_free (substitute_in_all_lets e)"
  by (induction e) (auto simp: list_all_iff intro!: substitute_let_free split: if_splits)

lemma let_free_fixed: "let_free e \<Longrightarrow> substitute_in_all_lets e = e"
  by (induction e) (auto simp: list_all_iff map_idI)

lemma substitute_in_all_lets_idem:
  "substitute_in_all_lets (substitute_in_all_lets e) = substitute_in_all_lets e"
  by (simp add: let_free_fixed substitute_in_all_lets_let_free)

lemma substitute_in_all_lets_stmt_idem:
  "substitute_in_all_lets_stmt (substitute_in_all_lets_stmt s) = substitute_in_all_lets_stmt s"
  by (induction s) (auto simp: substitute_in_all_lets_idem option.map_comp comp_def
      intro!: option.map_cong)

lemma size_substitute_in_all_lets_stmt: "size (substitute_in_all_lets_stmt s) = size s"
  proof (induction s)
  case (Block a r)
  then show ?case by (cases r) auto
next
  case (IfThenElse c t e)
  then show ?case by (cases e) auto
qed auto


section \<open>Errors and generator state\<close>

text \<open>
  Modelled from the spec: the error reporter behind \<^verbatim>\<open>user_error\<close>, \<^verbatim>\<open>user_assert\<close>,
  \<^verbatim>\<open>internal_error\<close> and \<^verbatim>\<open>internal_assert\<close> (\<^verbatim>\<open>Error.h\<close>) is not among the sources.
  The first two report a user-facing error, the last two a violated internal invariant,
  each with the message of the source; both tiers abort the translation at once, with
  no recovery, so no statement and no destructor of the generator runs after the abort.
  An aborted run is the value \<open>Inl (e, cg)\<close>: the error and the generator as the abort
  left it, its output stream included.
\<close>

datatype error = user_error string | internal_error string

record Loop =
  loop_name :: string
  loop_min :: expr
  loop_extent :: expr

text \<open>
  Modelled from the spec: \<^verbatim>\<open>Scope<Expr>\<close> (\<^verbatim>\<open>Scope.h\<close>, not among the sources), a
  stack of bindings in which the latest binding of a name shadows the earlier ones; the
  head of the list is the latest binding.
\<close>

type_synonym Scope = "(string \<times> expr) list"

definition scope_push :: "string \<Rightarrow> expr \<Rightarrow> Scope \<Rightarrow> Scope" where
  "scope_push n v s = (n, v) # s"

fun scope_pop :: "string \<Rightarrow> Scope \<Rightarrow> Scope option" where
  "scope_pop n [] = None"
| "scope_pop n (b # s) =
     (if fst b = n then Some s else map_option (Cons b) (scope_pop n s))"

definition scope_get :: "string \<Rightarrow> Scope \<Rightarrow> expr option" where
  "scope_get n s = map_of s n"

text \<open>
  A \<^verbatim>\<open>std::set<string>\<close> is the list of its elements in increasing order;
  \<open>set_insert\<close> is \<^verbatim>\<open>insert\<close>.
\<close>

definition set_insert :: "string \<Rightarrow> string list \<Rightarrow> string list" where
  "set_insert x xs = (if x \<in> set xs then xs else insort x xs)"

record CodeGen_Coli =
  stream :: string
  indent :: int
  func :: string
  scope :: Scope
  loop_dims :: "Loop list"
  computation_list :: "string list"
  constant_list :: "string list"
  output_buffers :: "string list"
  input_buffers :: "string list"
  temporary_buffers :: "string list"

type_synonym result = "(error \<times> CodeGen_Coli) + CodeGen_Coli"

type_synonym action = "CodeGen_Coli \<Rightarrow> result"

text \<open>
  The functions of other modules whose results only pass through the generator are
  parameters of the model: \<^verbatim>\<open>simplify\<close>, the host's printer of an expression
  (\<^verbatim>\<open>operator<<\<close> on \<^verbatim>\<open>Expr\<close>) and \<^verbatim>\<open>Loop::to_string\<close>.
\<close>

record externs =
  simplify :: "expr \<Rightarrow> expr"
  expr_str :: "expr \<Rightarrow> string"
  loop_str :: "Loop \<Rightarrow> string"

text \<open>Statements run in sequence; the first abort ends the run.\<close>

fun seq :: "action list \<Rightarrow> action" where
  "seq [] cg = Inr cg"
| "seq (a # as) cg = (case a cg of Inl e \<Rightarrow> Inl e | Inr cg' \<Rightarrow> seq as cg')"

declare seq.simps [simp del]

definition emit :: "string \<Rightarrow> action" where
  "emit s cg = Inr (cg\<lparr>stream := stream cg @ s\<rparr>)"

text \<open>
  Modelled from the spec: \<^verbatim>\<open>IRPrinter\<close>, the base class with the stream, the
  indentation and \<^verbatim>\<open>do_indent\<close>, is not among the sources; \<^verbatim>\<open>do_indent\<close> writes
  \<^verbatim>\<open>indent\<close> spaces.
\<close>

definition do_indent :: action where
  "do_indent cg = emit (replicate (nat (indent cg)) CHR '' '') cg"

definition user_assert :: "bool \<Rightarrow> string \<Rightarrow> action" where
  "user_assert c msg cg = (if c then Inr cg else Inl (user_error msg, cg))"

definition internal_assert :: "bool \<Rightarrow> string \<Rightarrow> action" where
  "internal_assert c msg cg = (if c then Inr cg else Inl (internal_error msg, cg))"

text \<open>A step that only updates the generator.\<close>

definition modify :: "(CodeGen_Coli \<Rightarrow> CodeGen_Coli) \<Rightarrow> action" where
  "modify f cg = Inr (f cg)"

definition fail :: "error \<Rightarrow> action" where
  "fail e cg = Inl (e, cg)"

definition tab_size :: int where
  "tab_size = 4"

section \<open>Printing of numbers and vectors\<close>

text \<open>
  Integers are written in decimal, as \<^verbatim>\<open>std::to_string\<close> and the stream's
  \<^verbatim>\<open>operator<<\<close> write them: \<open>decimal\<close> for the unsigned, \<open>decimal_int\<close> for the
  signed ones.
\<close>

definition digit :: "nat \<Rightarrow> char" where
  "digit d = char_of (of_char CHR ''0'' + d)"

fun decimal :: "nat \<Rightarrow> string" where
  "decimal n = (if 10 \<le> n then decimal (n div 10) @ [digit (n mod 10)] else [digit n])"

declare decimal.simps [simp del]

definition decimal_int :: "int \<Rightarrow> string" where
  "decimal_int i = (if 0 \<le> i then decimal (nat i) else CHR ''-'' # decimal (nat (- i)))"

text \<open>The template \<^verbatim>\<open>to_string\<close> of a vector, applied to the printed elements.\<close>

fun to_string_loop :: "string list \<Rightarrow> string" where
  "to_string_loop [] = []"
| "to_string_loop (x # xs) = x @ (if xs \<noteq> [] then '', '' else []) @ to_string_loop xs"

definition to_string :: "string list \<Rightarrow> string" where
  "to_string v = ''['' @ to_string_loop v @ '']''"

section \<open>Types of the target\<close>

definition halide_type_to_coli_type_str :: "halide_type \<Rightarrow> error + string" where
  "halide_type_to_coli_type_str t =
     (if is_uint t then
        (if bits t = 8 then Inr ''coli::p_uint8''
         else if bits t = 16 then Inr ''coli::p_uint16''
         else if bits t = 32 then Inr ''coli::p_uint32''
         else Inr ''coli::p_uint64'')
      else if is_int t then
        (if bits t = 8 then Inr ''coli::p_int8''
         else if bits t = 16 then Inr ''coli::p_int16''
         else if bits t = 32 then Inr ''coli::p_int32''
         else Inr ''coli::p_int64'')
      else if is_float t then
        (if bits t = 32 then Inr ''coli::p_float32''
         else if bits t = 64 then Inr ''coli::p_float64''
         else Inl (user_error ''Floats other than 32 and 64 bits are not suppored in Coli.\<newline>''))
      else if is_bool t then Inr ''coli::p_boolean''
      else Inl (user_error ''Halide type cannot be translated to Coli type.\<newline>''))"

text \<open>Writing the target's name of a type to the stream; the abort leaves the stream as it is.\<close>

definition emit_type :: "halide_type \<Rightarrow> action" where
  "emit_type t cg =
     (case halide_type_to_coli_type_str t of Inl e \<Rightarrow> Inl (e, cg) | Inr s \<Rightarrow> emit s cg)"

section \<open>The visitor of expressions\<close>

fun infix_text :: "binop \<Rightarrow> string" where
  "infix_text Add = '' + ''"
| "infix_text Sub = '' - ''"
| "infix_text Mul = ''*''"
| "infix_text Div = ''/''"
| "infix_text Mod = '' % ''"
| "infix_text EQ = '' == ''"
| "infix_text NE = '' != ''"
| "infix_text LT = '' < ''"
| "infix_text LE = '' <= ''"
| "infix_text GT = '' > ''"
| "infix_text GE = '' >= ''"
| "infix_text And_op = '' && ''"
| "infix_text Or_op = '' || ''"
| "infix_text Min_op = '', ''"
| "infix_text Max_op = '', ''"

function print_expr :: "expr \<Rightarrow> action"
  and visit_expr :: "expr \<Rightarrow> action"
  and print_call_args :: "expr list \<Rightarrow> action"
where
  "print_expr e cg = visit_expr (substitute_in_all_lets e) cg"
| "visit_expr (StringImm s) cg =
     fail (user_error ''Conversion of StringImm to COLi is not supported.\<newline>'') cg"
| "visit_expr (Ramp b s l) cg =
     fail (user_error ''Conversion of Ramp to COLi is not supported.\<newline>'') cg"
| "visit_expr (Broadcast v l) cg =
     fail (user_error ''Conversion of Broadcast to COLi is not supported.\<newline>'') cg"
| "visit_expr (IntImm t v) cg =
     seq [emit ''coli::expr('',
          emit (if bits t = 8 then ''(int8_t)''
                else if bits t = 16 then ''(int16_t)''
                else if bits t = 32 then ''(int32_t)'' else []),
          emit (decimal_int v @ '')'')] cg"
| "visit_expr (UIntImm t v) cg =
     seq [emit ''coli::expr('',
          emit (if bits t = 8 then ''(uint8_t)''
                else if bits t = 16 then ''(uint16_t)''
                else if bits t = 32 then ''(uint32_t)'' else []),
          emit (decimal v @ '')'')] cg"
| "visit_expr (FloatImm t v) cg =
     (if bits t = 32 then emit ''coli::expr((float)op->value);'' cg
      else if bits t = 64 then emit ''coli::expr(op->value);'' cg
      else fail (user_error (''Conversion of float '' @ decimal (bits t)
             @ ''_t to COLi is not currently supported.\<newline>'')) cg)"
| "visit_expr (Cast t e) cg =
     fail (user_error ''Conversion of Cast to COLi is not currently supported.\<newline>'') cg"
| \<open>visit_expr (Variable t n has_param has_image) cg =
     seq [user_assert (\<not> has_param \<and> \<not> has_image)
            ''Can only handle conversion of simple variable to COLi for now.\<newline>'',
          (\<lambda>cg. if n \<in> set (constant_list cg) then emit (n @ ''(0)'') cg
                else emit (''coli::idx("'' @ n @ ''")'') cg)] cg\<close>
| "visit_expr (Bin op a b) cg =
     (if op = Min_op then
        seq [emit ''coli::expr(coli::o_min, '', print_expr a, emit '', '', print_expr b,
             emit '')''] cg
      else if op = Max_op then
        seq [emit ''coli::expr(coli::o_max, '', print_expr a, emit '', '', print_expr b,
             emit '')''] cg
      else
        seq [emit ''('', print_expr a, emit (infix_text op), print_expr b, emit '')''] cg)"
| "visit_expr (Not_op a) cg = seq [emit ''!'', print_expr a] cg"
| "visit_expr (Select c a b) cg =
     seq [do_indent, emit ''coli::expr(coli::o_cond, '', print_expr c, emit '', '',
          print_expr a, emit '', '', print_expr b, emit '')''] cg"
| "visit_expr (Let_expr n v b) cg =
     fail (user_error
       ''Should not have encountered Let expr since we've called substitute_in_all_lets.\<newline>'') cg"
| "visit_expr (Load t n i) cg =
     fail (user_error ''Conversion of Load to COLi is not currently supported.\<newline>'') cg"
| "visit_expr (Call t n args ct) cg =
     seq [user_assert (ct = Halide \<or> ct = Image)
            ''Only handle call to halide func or image for now.\<newline>'',
          (\<lambda>cg. internal_assert (n \<in> set (computation_list cg))
            ''Call to computation that does not exist.\<newline>'' cg),
          emit (n @ ''(''), print_call_args args, emit '')''] cg"
| "print_call_args [] cg = Inr cg"
| "print_call_args (a # as) cg =
     seq [print_expr a, (if as \<noteq> [] then emit '', '' else Inr), print_call_args as] cg"
  by pat_completeness auto
termination
  by (relation "measure (\<lambda>x. case x of
        Inl (e, cg) \<Rightarrow> 2 * size (substitute_in_all_lets e) + 1
      | Inr (Inl (e, cg)) \<Rightarrow> 2 * size (substitute_in_all_lets e)
      | Inr (Inr (es, cg)) \<Rightarrow> 2 * size_list size (map substitute_in_all_lets es) + 1)")
    (auto simp: substitute_in_all_lets_idem comp_def)


section \<open>The loop-dimension stack\<close>

definition push_loop_dim :: "string \<Rightarrow> expr \<Rightarrow> expr \<Rightarrow> CodeGen_Coli \<Rightarrow> CodeGen_Coli" where
  "push_loop_dim name mn ex cg =
     cg\<lparr>loop_dims := loop_dims cg @ [\<lparr>loop_name = name, loop_min = mn, loop_extent = ex\<rparr>]\<rparr>"

text \<open>
  \<^verbatim>\<open>pop_back\<close> is only reached on a stack that holds the dimension pushed before it.
\<close>

definition pop_loop_dim :: "CodeGen_Coli \<Rightarrow> CodeGen_Coli" where
  "pop_loop_dim cg = cg\<lparr>loop_dims := butlast (loop_dims cg)\<rparr>"

fun relevant_exprs :: "Loop list \<Rightarrow> expr list" where
  "relevant_exprs [] = []"
| "relevant_exprs (d # ds) =
     (if \<not> is_const (loop_min d) then [loop_min d] else [])
     @ (if \<not> is_const (loop_extent d) then [loop_extent d] else [])
     @ relevant_exprs ds"

definition get_loop_bound_vars :: "externs \<Rightarrow> CodeGen_Coli \<Rightarrow> string" where
  "get_loop_bound_vars X cg =
     (let relevant = relevant_exprs (loop_dims cg)
      in if relevant = [] then [] else to_string (map (expr_str X) relevant))"

fun loop_bounds_loop :: "externs \<Rightarrow> Loop list \<Rightarrow> string" where
  "loop_bounds_loop X [] = []"
| "loop_bounds_loop X (d # ds) =
     loop_str X d @ (if ds \<noteq> [] then '') and ('' else []) @ loop_bounds_loop X ds"

definition get_loop_bounds :: "externs \<Rightarrow> CodeGen_Coli \<Rightarrow> string" where
  "get_loop_bounds X cg = ''('' @ loop_bounds_loop X (loop_dims cg) @ '')''"

section \<open>The visitor of statements\<close>

fun as_Variable :: "expr \<Rightarrow> string option" where
  "as_Variable (Variable t n p i) = Some n"
| "as_Variable e = None"

definition define_constant :: "externs \<Rightarrow> string \<Rightarrow> expr \<Rightarrow> action" where
  \<open>define_constant X name val cg =
     seq [(\<lambda>cg. internal_assert (name \<notin> set (constant_list cg))
             ''Redefinition of lets is not supported right now.\<newline>'' cg),
          do_indent,
          emit (''coli::constant '' @ name @ ''("'' @ name @ ''", ''),
          print_expr (simplify X val),
          emit '', '',
          emit_type (type_of (simplify X val)),
          (\<lambda>cg. emit ('', true, NULL, 0, &'' @ func cg @ '');\<newline>'') cg),
          modify (\<lambda>cg. cg\<lparr>constant_list := set_insert name (constant_list cg)\<rparr>)] cg\<close>

text \<open>
  The substitution map of a loop: the bindings of the scope that pass the loop's filter,
  each name with its latest binding.
\<close>

definition replacements :: "Scope \<Rightarrow> string \<Rightarrow> string \<Rightarrow> (string \<rightharpoonup> expr)" where
  "replacements sc min_name extent_name =
     map_of (filter (\<lambda>b. fst b \<noteq> min_name \<or> fst b \<noteq> extent_name) sc)"

fun types_equal :: "halide_type list \<Rightarrow> bool" where
  "types_equal (t # u # ts) = (t = u \<and> types_equal (u # ts))"
| "types_equal ts = True"

fun print_extents :: "(expr \<times> expr) list \<Rightarrow> action" where
  "print_extents [] cg = Inr cg"
| "print_extents (r # rs) cg =
     seq [print_expr (snd r), (if rs \<noteq> [] then emit '', '' else Inr), print_extents rs] cg"

text \<open>
  The visitors, in the order of the source. In \<open>Provide\<close> the value \<^verbatim>\<open>values[0]\<close> is
  read after the check that the node has exactly one value, and in \<open>Realize\<close> the type
  \<^verbatim>\<open>types[0]\<close> of a node without types, which the host never builds, is an internal
  error.
\<close>

function print_stmt :: "externs \<Rightarrow> stmt \<Rightarrow> action"
  and visit_stmt :: "externs \<Rightarrow> stmt \<Rightarrow> action"
where
  "print_stmt X s cg = visit_stmt X (substitute_in_all_lets_stmt s) cg"
| "visit_stmt X (AssertStmt c m) cg = Inr cg"
| "visit_stmt X (IfThenElse c t e) cg = print_stmt X t cg"
| "visit_stmt X (Free n) cg =
     fail (user_error ''Conversion of Free to COLi is not supported.\<newline>'') cg"
| "visit_stmt X (Store n v i) cg =
     fail (user_error ''Should pass the unflatten version of Store to COLi\<newline>.\<newline>'') cg"
| "visit_stmt X (Allocate n t es c b) cg =
     fail (user_error ''Should pass the unflatten version of Allocate to COLi\<newline>.\<newline>'') cg"
| "visit_stmt X (LetStmt n v b) cg =
     seq [modify (\<lambda>cg. cg\<lparr>scope := scope_push n v (scope cg)\<rparr>),
          print_stmt X b,
          (\<lambda>cg. case scope_pop n (scope cg) of
             None \<Rightarrow> fail (internal_error ''Name not in symbol table'') cg
           | Some sc \<Rightarrow> modify (\<lambda>cg. cg\<lparr>scope := sc\<rparr>) cg)] cg"
| "visit_stmt X (ProducerConsumer n is_producer b) cg =
     seq [user_assert (\<not> is_Block b) ''Does not currently handle update.\<newline>'',
          (\<lambda>cg. internal_assert (\<not> is_producer \<or> n \<notin> set (computation_list cg))
             ''Found another computation with the same name.\<newline>'' cg),
          (\<lambda>cg. let old_loop_dims = loop_dims cg
                in case print_stmt X b cg of
                     Inl e \<Rightarrow> Inl e
                   | Inr cg' \<Rightarrow> Inr (cg'\<lparr>loop_dims := old_loop_dims\<rparr>))] cg"
| \<open>visit_stmt X (For name mn ex ft api body) cg =
     seq [modify (push_loop_dim name mn ex),
          (\<lambda>cg. case as_Variable mn of
             None \<Rightarrow>
               fail (internal_error ''Min value of a loop should have been a variable.\<newline>'') cg
           | Some min_name \<Rightarrow>
              (case as_Variable ex of
                 None \<Rightarrow>
                   fail (internal_error ''Extent of a loop should have been a variable.\<newline>'') cg
               | Some extent_name \<Rightarrow>
                  (case scope_get min_name (scope cg) of
                     None \<Rightarrow> fail (internal_error ''Symbol not found'') cg
                   | Some min_val \<Rightarrow>
                      (case scope_get extent_name (scope cg) of
                         None \<Rightarrow> fail (internal_error ''Symbol not found'') cg
                       | Some extent_val \<Rightarrow>
                           (let r = replacements (scope cg) min_name extent_name;
                                min_val2 = substitute r (substitute r min_val);
                                extent_val2 = substitute r (substitute r extent_val)
                            in seq [do_indent,
                                    emit (''// Define loop bounds for dimension "'' @ name
                                          @ ''".\<newline>''),
                                    define_constant X min_name min_val2,
                                    define_constant X extent_name extent_val2,
                                    emit ''\<newline>'',
                                    print_stmt X body,
                                    modify pop_loop_dim] cg)))))] cg\<close>
| "visit_stmt X (Evaluate e) cg = Inr cg"
| \<open>visit_stmt X (Provide name values args) cg =
     seq [(\<lambda>cg. internal_assert (name \<notin> set (computation_list cg))
             ''Duplicate computation is not currently supported.\<newline>'' cg),
          (\<lambda>cg. internal_assert
             (''buff_'' @ name \<in> set (temporary_buffers cg)
              \<or> ''buff_'' @ name \<in> set (output_buffers cg))
             ''The buffer should have been allocated previously.\<newline>'' cg),
          user_assert (list_all is_Variable args)
            ''Expect args of provide to be loop dims for now (doesn't currently handle update).\<newline>'',
          user_assert (length values = 1)
            ''Expect 1D store (no tuple) in the Provide node for now.\<newline>'',
          do_indent,
          emit (''coli::computation '' @ name @ ''("''),
          modify (\<lambda>cg. cg\<lparr>indent := indent cg + 5 * tab_size\<rparr>),
          (\<lambda>cg. let dims_str = to_string (map (expr_str X) args);
                    symbolic_str = get_loop_bound_vars X cg;
                    access_str = ''{'' @ name @ dims_str @ ''->'' @ ''buff_'' @ name @ dims_str @ ''}''
                in seq [(\<lambda>cg. if symbolic_str \<noteq> []
                           then emit (get_loop_bound_vars X cg @ ''->{'' @ name @ dims_str
                                      @ '': "\<newline>'') cg
                           else emit (''{'' @ name @ dims_str @ '': "\<newline>'') cg),
                        do_indent,
                        (\<lambda>cg. emit (''"'' @ get_loop_bounds X cg @ ''}", \<newline>'') cg),
                        do_indent,
                        print_expr (hd values),
                        emit '', true, '',
                        emit_type (type_of (hd values)),
                        (\<lambda>cg. emit ('', &'' @ func cg @ '');\<newline>'') cg),
                        modify (\<lambda>cg. cg\<lparr>indent := indent cg - 5 * tab_size\<rparr>),
                        do_indent,
                        emit (name @ ''.set_access("'' @ access_str @ ''");\<newline>''),
                        modify (\<lambda>cg. cg\<lparr>computation_list :=
                                 set_insert name (computation_list cg)\<rparr>)] cg)] cg\<close>
| \<open>visit_stmt X (Realize name types bounds c body) cg =
     seq [(\<lambda>cg. user_assert (''buff_'' @ name \<notin> set (temporary_buffers cg))
             ''Duplicate allocation (i.e. duplicate compute) is not currently supported.\<newline>'' cg),
          user_assert (types_equal types)
            ''Realize node should have the same types for all dimensions for now.\<newline>'',
          user_assert (list_all (\<lambda>r. is_zero (fst r)) bounds)
            ''Bound of realize node should start from 0 for now.\<newline>'',
          do_indent,
          do_indent,
          emit (''coli::buffer '' @ ''buff_'' @ name @ ''("'' @ ''buff_'' @ name @ ''", ''
                @ decimal (length bounds) @ '', ''),
          emit ''{'',
          print_extents bounds,
          emit ''}, '',
          (case types of
             [] \<Rightarrow> fail (internal_error ''Realize has empty type\<newline>'')
           | t # ts \<Rightarrow> emit_type t),
          (\<lambda>cg. emit ('', NULL, coli::a_temporary, '' @ ''&'' @ func cg @ '');\<newline>'') cg),
          modify (\<lambda>cg. cg\<lparr>temporary_buffers :=
                   set_insert (''buff_'' @ name) (temporary_buffers cg)\<rparr>),
          print_stmt X body] cg\<close>
| "visit_stmt X (Block first rest) cg =
     seq [print_stmt X first,
          (case rest of None \<Rightarrow> Inr | Some r \<Rightarrow> print_stmt X r)] cg"
  by pat_completeness auto
termination
  by (relation "measure (\<lambda>x. case x of
        Inl (X, s, cg) \<Rightarrow> 2 * size s + 1
      | Inr (X, s, cg) \<Rightarrow> 2 * size s)")
    (auto simp: size_substitute_in_all_lets_stmt)


section \<open>Prologue, epilogue and entry point\<close>

definition headers :: string where
  \<open>headers =
     ''#include <isl/set.h>\<newline>''
     @ ''#include <isl/union_map.h>\<newline>''
     @ ''#include <isl/union_set.h>\<newline>''
     @ ''#include <isl/ast_build.h>\<newline>''
     @ ''#include <isl/schedule.h>\<newline>''
     @ ''#include <isl/schedule_node.h>\<newline>\<newline>''
     @ ''#include <coli/debug.h>\<newline>''
     @ ''#include <coli/core.h>\<newline>\<newline>''
     @ ''#include <string.h>\<newline>''
     @ ''#include <Halide.h>\<newline>''
     @ ''#include "halide_image_io.h"\<newline>''\<close>

text \<open>What the constructor reads of an output \<^verbatim>\<open>Function\<close>: its name and its arguments.\<close>

record Function =
  function_name :: string
  function_args :: "string list"

text \<open>
  The loop over the dimensions of an output buffer: it writes the sizes and binds the
  minimum and the extent of each dimension in the scope.
\<close>

fun output_dims_loop ::
  "string \<Rightarrow> nat \<Rightarrow> int list \<Rightarrow> string \<times> CodeGen_Coli \<Rightarrow> string \<times> CodeGen_Coli" where
  "output_dims_loop fname i [] acc = acc"
| "output_dims_loop fname i (e # es) (sizes, cg) =
     (let sizes1 = sizes @ ''coli::expr('' @ decimal_int e @ '')'';
          min_str = print_name (fname @ ''.min.'' @ decimal i);
          extent_str = print_name (fname @ ''.extent.'' @ decimal i);
          cg1 = cg\<lparr>scope := scope_push min_str (IntImm Int32 0) (scope cg)\<rparr>;
          cg2 = cg1\<lparr>scope := scope_push extent_str (IntImm Int32 e) (scope cg1)\<rparr>;
          sizes2 = (if es \<noteq> [] then sizes1 @ '', '' else sizes1)
      in output_dims_loop fname (Suc i) es (sizes2, cg2))"

definition allocate_output :: "Function \<times> int list \<times> halide_type \<Rightarrow> action" where
  \<open>allocate_output x cg =
     (let f = fst x; buffer_extents = fst (snd x); type = snd (snd x)
      in seq [internal_assert (length buffer_extents = length (function_args f)) [],
              (\<lambda>cg. let r = output_dims_loop (function_name f) 0 buffer_extents (''{'', cg);
                        sizes = fst r @ ''}'';
                        buffer_name = ''buff_'' @ function_name f
                    in seq [do_indent,
                            emit (''coli::buffer '' @ buffer_name @ ''("'' @ buffer_name @ ''", ''
                                  @ decimal (length (function_args f)) @ '', '' @ sizes
                                  @ '', ''),
                            emit_type type,
                            (\<lambda>cg. emit ('', NULL, coli::a_output, '' @ ''&'' @ func cg
                                        @ '');\<newline>'') cg),
                            modify (\<lambda>cg. cg\<lparr>output_buffers :=
                                     set_insert buffer_name (output_buffers cg)\<rparr>)] (snd r))] cg)\<close>

fun allocate_outputs :: "(Function \<times> int list \<times> halide_type) list \<Rightarrow> action" where
  "allocate_outputs [] cg = Inr cg"
| "allocate_outputs (x # xs) cg =
     (case allocate_output x cg of Inl e \<Rightarrow> Inl e | Inr cg' \<Rightarrow> allocate_outputs xs cg')"

text \<open>
  The loop over the dimensions of an input buffer: it names the dummy dimensions,
  pushes one loop dimension for each and writes the sizes.
\<close>

fun input_dims_loop ::
  "nat \<Rightarrow> int list \<Rightarrow> string list \<times> string \<times> CodeGen_Coli
     \<Rightarrow> string list \<times> string \<times> CodeGen_Coli" where
  "input_dims_loop i [] acc = acc"
| "input_dims_loop i (e # es) (dummy_dims, sizes, cg) =
     (let d = ''i'' @ decimal i;
          cg1 = push_loop_dim d (IntImm Int32 0) (IntImm Int32 e) cg;
          sizes1 = sizes @ ''coli::expr('' @ decimal_int e @ '')'';
          sizes2 = (if es \<noteq> [] then sizes1 @ '', '' else sizes1)
      in input_dims_loop (Suc i) es (dummy_dims @ [d], sizes2, cg1))"

definition bind_input :: "externs \<Rightarrow> string \<times> int list \<times> halide_type \<Rightarrow> action" where
  \<open>bind_input X x cg =
     (let input_name = fst x; buffer_extents = fst (snd x); type = snd (snd x);
          r = input_dims_loop 0 buffer_extents ([], ''{'', cg);
          dummy_dims = fst r;
          sizes = fst (snd r) @ ''}'';
          buffer_name = ''buff_'' @ input_name
      in seq [do_indent,
              emit (''coli::buffer '' @ buffer_name @ ''("'' @ buffer_name @ ''", ''
                    @ decimal (length buffer_extents) @ '', '' @ sizes @ '', ''),
              emit_type type,
              (\<lambda>cg. emit ('', NULL, coli::a_input, '' @ ''&'' @ func cg @ '');\<newline>'') cg),
              modify (\<lambda>cg. cg\<lparr>input_buffers := set_insert buffer_name (input_buffers cg)\<rparr>),
              (\<lambda>cg. let dims_str = to_string dummy_dims;
                        symbolic_str = get_loop_bound_vars X cg;
                        iter_space_str =
                          (if symbolic_str \<noteq> []
                           then get_loop_bound_vars X cg @ ''->{'' @ input_name @ dims_str
                                @ '': '' @ get_loop_bounds X cg @ ''}''
                           else ''{'' @ input_name @ dims_str @ '': '' @ get_loop_bounds X cg
                                @ ''}'');
                        access_str = ''{'' @ input_name @ dims_str @ ''->'' @ ''buff_''
                                     @ input_name @ dims_str @ ''}''
                    in seq [do_indent,
                            emit (''coli::computation '' @ input_name @ ''("'' @ iter_space_str
                                  @ ''", '' @ ''expr(), false, ''),
                            emit_type type,
                            (\<lambda>cg. emit ('', &'' @ func cg @ '');\<newline>'') cg),
                            do_indent,
                            emit (input_name @ ''.set_access("'' @ access_str @ ''");\<newline>''),
                            emit ''\<newline>'',
                            modify (\<lambda>cg. cg\<lparr>computation_list :=
                                     set_insert input_name (computation_list cg)\<rparr>),
                            modify (pop_loop_dim ^^ length buffer_extents)] cg)]
           (snd (snd r)))\<close>

fun bind_inputs :: "externs \<Rightarrow> (string \<times> int list \<times> halide_type) list \<Rightarrow> action" where
  "bind_inputs X [] cg = Inr cg"
| "bind_inputs X (x # xs) cg =
     (case bind_input X x cg of Inl e \<Rightarrow> Inl e | Inr cg' \<Rightarrow> bind_inputs X xs cg')"

text \<open>
  The constructor. The generator starts on the stream \<open>dest\<close> with no indentation
  and empty scope, loop stack and registries.
\<close>

definition CodeGen_Coli_new :: "string \<Rightarrow> string \<Rightarrow> CodeGen_Coli" where
  "CodeGen_Coli_new dest pipeline_name =
     \<lparr>stream = dest, indent = 0, func = pipeline_name, scope = [], loop_dims = [],
      computation_list = [], constant_list = [], output_buffers = [], input_buffers = [],
      temporary_buffers = []\<rparr>"

definition CodeGen_Coli_ctor ::
  "externs \<Rightarrow> string \<Rightarrow> string \<Rightarrow> Function list \<Rightarrow> int list list \<Rightarrow> halide_type list
     \<Rightarrow> string list \<Rightarrow> int list list \<Rightarrow> halide_type list \<Rightarrow> result" where
  \<open>CodeGen_Coli_ctor X dest pipeline_name outputs output_buffer_extents output_buffer_types
       inputs input_buffer_extents input_buffer_types =
     seq [internal_assert (length outputs = length output_buffer_extents) [],
          internal_assert (length output_buffer_extents = length output_buffer_types) [],
          internal_assert (length inputs = length input_buffer_extents) [],
          internal_assert (length input_buffer_extents = length input_buffer_types) [],
          emit (headers @ ''\<newline>\<newline>''),
          emit ''using namespace coli;\<newline>\<newline>'',
          emit ''int main(int argc, char **argv)\<newline>'',
          emit ''{\<newline>'',
          modify (\<lambda>cg. cg\<lparr>indent := indent cg + tab_size\<rparr>),
          do_indent,
          emit ''// Set default coli options.\<newline>'',
          do_indent,
          emit ''global::set_default_coli_options();\<newline>\<newline>'',
          do_indent,
          (\<lambda>cg. emit (''coli::function '' @ func cg @ ''("'' @ func cg @ ''")'' @ '';\<newline>'') cg),
          allocate_outputs (zip outputs (zip output_buffer_extents output_buffer_types)),
          bind_inputs X (zip inputs (zip input_buffer_extents input_buffer_types))]
       (CodeGen_Coli_new dest pipeline_name)\<close>

text \<open>The destructor: the two loops over the registered buffers, then the epilogue.\<close>

fun output_buffers_loop :: "string list \<Rightarrow> string \<times> int \<Rightarrow> string \<times> int" where
  "output_buffers_loop [] acc = acc"
| "output_buffers_loop (b # bs) (buffers_stream, count) =
     output_buffers_loop bs
       (buffers_stream @ ''&'' @ b @ (if bs \<noteq> [] then '', '' else []), count + 1)"

fun input_buffers_loop :: "int \<Rightarrow> string list \<Rightarrow> string \<times> bool \<Rightarrow> string \<times> bool" where
  "input_buffers_loop count [] acc = acc"
| "input_buffers_loop count (b # bs) (buffers_stream, start) =
     (let r = (if count > 0 \<and> start then (buffers_stream @ '', '', False)
               else (buffers_stream, start))
      in input_buffers_loop count bs
           (fst r @ ''&'' @ b @ (if bs \<noteq> [] then '', '' else []), snd r))"

definition CodeGen_Coli_dtor :: action where
  \<open>CodeGen_Coli_dtor cg =
     (let r1 = output_buffers_loop (output_buffers cg) (''{'', 0);
          r2 = input_buffers_loop (snd r1) (input_buffers cg) (fst r1, True);
          buffers_stream = fst r2 @ ''}''
      in seq [emit ''\<newline>'',
              do_indent,
              (\<lambda>cg. emit (func cg @ ''.set_arguments('' @ buffers_stream @ '');\<newline>'') cg),
              do_indent,
              (\<lambda>cg. emit (func cg @ ''.gen_isl_ast();\<newline>'') cg),
              do_indent,
              (\<lambda>cg. emit (func cg @ ''.gen_halide_stmt();\<newline>'') cg),
              do_indent,
              (\<lambda>cg. emit (func cg @ ''.dump_halide_stmt();\<newline>'') cg),
              do_indent,
              (\<lambda>cg. emit (func cg @ ''.gen_halide_obj("build/generated_'' @ func cg
                          @ ''_test.o");\<newline>'') cg),
              modify (\<lambda>cg. cg\<lparr>indent := indent cg - tab_size\<rparr>),
              do_indent,
              emit ''}\<newline>\<newline>''] cg)\<close>

text \<open>
  The entry point. The generator is a local object of \<^verbatim>\<open>print_to_coli\<close>: its destructor
  runs when the traversal has returned, and an abort ends the run before it.
\<close>

definition print_to_coli ::
  "externs \<Rightarrow> stmt \<Rightarrow> string \<Rightarrow> string \<Rightarrow> Function list \<Rightarrow> int list list \<Rightarrow> halide_type list
     \<Rightarrow> string list \<Rightarrow> int list list \<Rightarrow> halide_type list \<Rightarrow> result" where
  "print_to_coli X s dest pipeline_name outputs output_buffer_extents output_buffer_types
       inputs input_buffer_extents input_buffer_types =
     (let s1 = normalize_stmt s
      in case CodeGen_Coli_ctor X dest pipeline_name outputs output_buffer_extents
                output_buffer_types inputs input_buffer_extents input_buffer_types of
           Inl e \<Rightarrow> Inl e
         | Inr cg \<Rightarrow> seq [print_stmt X s1, CodeGen_Coli_dtor] cg)"

section \<open>Reading results, and sample inputs\<close>

text \<open>The error of an aborted run, if the run aborted.\<close>

fun failure :: "result \<Rightarrow> error option" where
  "failure (Inl x) = Some (fst x)"
| "failure (Inr cg) = None"

text \<open>
  The two descriptions that the statements below compare the code with: a list of texts
  separated by commas, and the bounds of the active loop dimensions in push order.
\<close>

fun comma_sep :: "string list \<Rightarrow> string" where
  "comma_sep [] = []"
| "comma_sep [x] = x"
| "comma_sep (x # y # ys) = x @ '', '' @ comma_sep (y # ys)"

definition bound_exprs :: "Loop list \<Rightarrow> expr list" where
  "bound_exprs ds = concat (map (\<lambda>d. [loop_min d, loop_extent d]) ds)"

text \<open>
  An instance of the parameters, to run the model on sample trees: no simplification, a
  variable prints as its name, a loop dimension as a lower bound on its name.
\<close>

definition plain_externs :: externs where
  "plain_externs =
     \<lparr>simplify = (\<lambda>e. e),
      expr_str = (\<lambda>e. case as_Variable e of Some n \<Rightarrow> n | None \<Rightarrow> ''_''),
      loop_str = (\<lambda>d. ''0 <= '' @ loop_name d)\<rparr>"

text \<open>
  A generator in the middle of a translation: inside the loop \<open>y\<close>, with the bounds
  \<open>a\<close> and \<open>b\<close> bound by enclosing lets and the output buffer of \<open>f\<close> allocated.
\<close>

definition sample_generator :: CodeGen_Coli where
  "sample_generator =
     \<lparr>stream = [], indent = 4, func = ''f'',
      scope = [(''a'', IntImm Int32 0), (''b'', IntImm Int32 4)],
      loop_dims = [\<lparr>loop_name = ''y'', loop_min = IntImm Int32 0, loop_extent = IntImm Int32 4\<rparr>],
      computation_list = [], constant_list = [], output_buffers = [''buff_f''],
      input_buffers = [], temporary_buffers = []\<rparr>"

definition sample_provide :: stmt where
  "sample_provide =
     Provide ''f'' [Bin Add (Variable Int32 ''x'' False False) (IntImm Int32 1)]
       [Variable Int32 ''x'' False False]"

definition sample_producer :: stmt where
  "sample_producer =
     ProducerConsumer ''f'' True
       (For ''x'' (Variable Int32 ''a'' False False) (Variable Int32 ''b'' False False) 0 0
          sample_provide)"

lemmas run_simps = seq.simps Let_def plain_externs_def sample_generator_def sample_provide_def
  sample_producer_def CodeGen_Coli_new_def emit_def do_indent_def modify_def user_assert_def
  internal_assert_def fail_def push_loop_dim_def pop_loop_dim_def define_constant_def
  replacements_def scope_get_def scope_push_def set_insert_def emit_type_def
  halide_type_to_coli_type_str_def Int32_def is_uint_def is_int_def get_loop_bound_vars_def
  get_loop_bounds_def to_string_def tab_size_def decimal_int_def decimal.simps digit_def

text \<open>
  Invariants of the generator: \<open>keeps J a\<close> says that the step \<open>a\<close>, started in a
  state where \<open>J\<close> holds, ends or aborts in a state where \<open>J\<close> holds.
\<close>

definition ok_after :: "(CodeGen_Coli \<Rightarrow> bool) \<Rightarrow> result \<Rightarrow> bool" where
  "ok_after J r = (case r of Inl x \<Rightarrow> J (snd x) | Inr cg' \<Rightarrow> J cg')"

definition keeps :: "(CodeGen_Coli \<Rightarrow> bool) \<Rightarrow> action \<Rightarrow> bool" where
  "keeps J a = (\<forall>cg. J cg \<longrightarrow> ok_after J (a cg))"

text \<open>The name \<open>n\<close> is a registered computation.\<close>

definition registered :: "string \<Rightarrow> CodeGen_Coli \<Rightarrow> bool" where
  "registered n cg = (n \<in> set (computation_list cg))"


text \<open>
  The end of the emitted text. Only the destructor writes the line that closes the body
  of the generated function, \<^verbatim>\<open>}\<close> and an empty line; \<open>closes_body\<close> says that a text
  ends with it, \<open>body_open\<close> that a text does not end with any beginning of it.
  \<open>tail_state\<close> reads a text from the left and keeps how much of the closing line the
  text read so far ends with.
\<close>

fun brace_step :: "nat \<Rightarrow> char \<Rightarrow> nat" where
  "brace_step q x =
     (if x = CHR ''}'' then 1
      else if x = CHR 0x0A then (if q = 1 then 2 else if q = 2 then 3 else 0)
      else 0)"

definition tail_state :: "string \<Rightarrow> nat" where
  "tail_state s = foldl brace_step 0 s"

definition closes_body :: "string \<Rightarrow> bool" where
  "closes_body s = suffix ''}\<newline>\<newline>'' s"

definition body_open :: "string \<Rightarrow> bool" where
  "body_open s =
     (\<not> suffix ''}'' s \<and> \<not> suffix ''}\<newline>'' s \<and> \<not> suffix ''}\<newline>\<newline>'' s)"

definition unclosed :: "CodeGen_Coli \<Rightarrow> bool" where
  "unclosed cg = (tail_state (stream cg) = 0)"


text \<open>A store of a string literal to the output \<open>f\<close>.\<close>

definition sample_string_store :: stmt where
  "sample_string_store = Provide ''f'' [StringImm ''s''] [Variable Int32 ''x'' False False]"


section \<open>Properties of the name sanitizer\<close>

lemma isalnum_not_dot: "isalnum c \<Longrightarrow> c \<noteq> CHR ''.'' \<and> c \<noteq> CHR ''$''"
  by (auto simp: isalnum_def isalpha_def isdigit_def)

lemma print_name_char_ident: "list_all ident_char (print_name_char c)"
  by (simp add: print_name_char_def ident_char_def)

lemma print_name_char_fixed: "ident_char c \<Longrightarrow> print_name_char c = [c]"
  using isalnum_not_dot [of c] by (auto simp: print_name_char_def ident_char_def)

lemma print_name_loop_ident: "list_all ident_char (print_name_loop s)"
  by (induction s) (simp_all add: print_name_char_ident)

lemma print_name_loop_fixed: "list_all ident_char s \<Longrightarrow> print_name_loop s = s"
  by (induction s) (simp_all add: print_name_char_fixed)

lemma print_name_head_not_alpha: "\<not> isalpha (name0 (print_name s))"
proof (cases s)
  case Nil
  then show ?thesis by (simp add: print_name_def name0_def isalpha_def)
next
  case (Cons c cs)
  show ?thesis
  proof (cases "isalpha c")
    case True
    then show ?thesis by (simp add: print_name_def name0_def Cons isalpha_def)
  next
    case False
    then have "\<not> isalpha (name0 (print_name_char c @ print_name_loop cs))"
      by (auto simp: print_name_char_def name0_def isalpha_def)
    with False show ?thesis by (simp add: print_name_def name0_def Cons)
  qed
qed

lemma print_name_ident: "list_all ident_char (print_name s)"
  by (simp add: print_name_def print_name_loop_ident ident_char_def)

text \<open>
  Claim C6. The name sanitizer is a function of its argument alone, and sanitizing a
  sanitized name changes nothing: for every string \<open>s\<close>,
  \<open>print_name (print_name s) = print_name s\<close>.
\<close>

theorem print_name_idempotent: "print_name (print_name s) = print_name s"
proof -
  have "print_name (print_name s) = print_name_loop (print_name s)"
    using print_name_head_not_alpha [of s] by (simp add: print_name_def [of "print_name s"])
  also have "\<dots> = print_name s"
    by (rule print_name_loop_fixed) (rule print_name_ident)
  finally show ?thesis .
qed

section \<open>Literals, lets and conditionals\<close>

text \<open>
  Claim C10. A float literal of 32 bits is written as the fixed text
  \<^verbatim>\<open>coli::expr((float)op->value);\<close> and one of 64 bits as \<^verbatim>\<open>coli::expr(op->value);\<close>,
  whatever the value \<open>v\<close> of the literal, which does not occur in the output.
\<close>

theorem visit_FloatImm_text:
  "visit_expr (FloatImm (Type c 32 l) v) cg
     = Inr (cg\<lparr>stream := stream cg @ ''coli::expr((float)op->value);''\<rparr>)
   \<and> visit_expr (FloatImm (Type c 64 l) v) cg
     = Inr (cg\<lparr>stream := stream cg @ ''coli::expr(op->value);''\<rparr>)"
  by (simp add: emit_def)

text \<open>
  Claim C9, as the code has it. Visiting an expression-level let aborts the translation,
  and the abort is reported through \<^verbatim>\<open>user_error\<close>, as for every other node kind the
  generator rejects; the message says that the lets should have been inlined.
\<close>

theorem visit_Let_user_error:
  "visit_expr (Let_expr n v b) cg =
     Inl (user_error
       ''Should not have encountered Let expr since we've called substitute_in_all_lets.\<newline>'', cg)"
  by (simp add: fail_def)

text \<open>
  The claim as stated fails: on the let \<open>let t = 1 in t\<close> the error is a user error,
  not an internal one.
\<close>

theorem visit_Let_not_internal:
  "failure (visit_expr (Let_expr ''t'' (IntImm Int32 1) (Variable Int32 ''t'' False False))
      (CodeGen_Coli_new [] ''f''))
   = Some (user_error
       ''Should not have encountered Let expr since we've called substitute_in_all_lets.\<newline>'')"
  by (simp add: fail_def)

text \<open>
  Claim C4. Visiting a conditional is visiting its then-case: the generator state, the
  text written and the error, if the then-case raises one, are those of the then-case
  alone, whatever the condition and the else-case; the same holds through the entry
  \<^verbatim>\<open>print\<close>.
\<close>

theorem visit_IfThenElse_then_only:
  "visit_stmt X (IfThenElse c t e) cg = print_stmt X t cg
   \<and> print_stmt X (IfThenElse c t e) cg = print_stmt X t cg"
  by (simp add: substitute_in_all_lets_stmt_idem)

section \<open>Loop dimensions\<close>

text \<open>
  Claim C8. A producer/consumer node that is visited to its end leaves the stack of
  loop dimensions as it found it.
\<close>

theorem visit_ProducerConsumer_restores_loop_dims:
  "visit_stmt X (ProducerConsumer n p b) cg = Inr cg' \<Longrightarrow> loop_dims cg' = loop_dims cg"
  by (auto simp: seq.simps user_assert_def internal_assert_def Let_def
      split: if_splits sum.splits)

text \<open>
  The sample producer, with a loop around a store, is visited to its end inside the
  loop \<open>y\<close>.
\<close>

theorem visit_ProducerConsumer_restores_loop_dims_witness:
  "\<exists>cg'. visit_stmt plain_externs sample_producer sample_generator = Inr cg'
     \<and> loop_dims cg' = loop_dims sample_generator"
proof -
  have "\<exists>cg'. visit_stmt plain_externs sample_producer sample_generator = Inr cg'"
    by (simp add: run_simps)
  then obtain cg' where r: "visit_stmt plain_externs sample_producer sample_generator = Inr cg'"
    by blast
  from visit_ProducerConsumer_restores_loop_dims [OF r [unfolded sample_producer_def]] r
  show ?thesis
    by blast
qed

lemma relevant_exprs_filter:
  "relevant_exprs ds = filter (\<lambda>e. \<not> is_const e) (bound_exprs ds)"
  by (induction ds) (simp_all add: bound_exprs_def)

lemma to_string_loop_comma_sep: "to_string_loop xs = comma_sep xs"
  by (induction xs rule: comma_sep.induct) auto

text \<open>
  Claim C7. \<^verbatim>\<open>get_loop_bound_vars\<close> prints, in push order, the minimum and the extent of
  each active dimension that is not a compile-time constant, and nothing else; it
  returns the empty string when there is none.
\<close>

theorem get_loop_bound_vars_non_constant_bounds:
  "get_loop_bound_vars X cg =
     (let vs = filter (\<lambda>e. \<not> is_const e) (bound_exprs (loop_dims cg))
      in if vs = [] then [] else ''['' @ comma_sep (map (expr_str X) vs) @ '']'')"
  by (simp add: get_loop_bound_vars_def relevant_exprs_filter to_string_def to_string_loop_comma_sep Let_def)

section \<open>The epilogue\<close>

lemma comma_sep_Cons:
  "comma_sep (x # ys) = x @ (if ys = [] then [] else '', '' @ comma_sep ys)"
  by (cases ys) auto

lemma comma_sep_append:
  "comma_sep (xs @ ys) =
     (if xs = [] then comma_sep ys
      else if ys = [] then comma_sep xs
      else comma_sep xs @ '', '' @ comma_sep ys)"
  by (induction xs) (auto simp: comma_sep_Cons)

lemma output_buffers_loop_eq:
  "output_buffers_loop bs (s, k) =
     (s @ comma_sep (map ((@) ''&'') bs), k + int (length bs))"
  by (induction bs arbitrary: s k) (auto simp: comma_sep_Cons)

lemma input_buffers_loop_started:
  "input_buffers_loop k bs (s, False) = (s @ comma_sep (map ((@) ''&'') bs), False)"
  by (induction bs arbitrary: s) (auto simp: comma_sep_Cons)

lemma input_buffers_loop_not_counted:
  "\<not> k > 0 \<Longrightarrow>
     fst (input_buffers_loop k bs (s, start)) = s @ comma_sep (map ((@) ''&'') bs)"
  by (induction bs arbitrary: s) (auto simp: comma_sep_Cons)

lemma input_buffers_loop_eq:
  "fst (input_buffers_loop k bs (s, True)) =
     (if bs = [] then s
      else (if k > 0 then s @ '', '' else s) @ comma_sep (map ((@) ''&'') bs))"
proof (cases "k > 0")
  case True
  then show ?thesis
    by (cases bs) (auto simp: input_buffers_loop_started comma_sep_Cons)
next
  case False
  then show ?thesis
    by (simp add: input_buffers_loop_not_counted)
qed

lemma buffers_stream_eq:
  "fst (input_buffers_loop (snd (output_buffers_loop outs (''{'', 0))) ins
          (fst (output_buffers_loop outs (''{'', 0)), True))
   = ''{'' @ comma_sep (map ((@) ''&'') (outs @ ins))"
  by (simp add: output_buffers_loop_eq input_buffers_loop_eq comma_sep_append)

lemma CodeGen_Coli_dtor_eq:
  \<open>CodeGen_Coli_dtor cg =
     (let ind = replicate (nat (indent cg)) CHR '' ''
      in Inr (cg\<lparr>stream := stream cg @ ''\<newline>''
           @ ind @ func cg @ ''.set_arguments({''
               @ comma_sep (map ((@) ''&'') (output_buffers cg @ input_buffers cg)) @ ''});\<newline>''
           @ ind @ func cg @ ''.gen_isl_ast();\<newline>''
           @ ind @ func cg @ ''.gen_halide_stmt();\<newline>''
           @ ind @ func cg @ ''.dump_halide_stmt();\<newline>''
           @ ind @ func cg @ ''.gen_halide_obj("build/generated_'' @ func cg @ ''_test.o");\<newline>''
           @ replicate (nat (indent cg - 4)) CHR '' '' @ ''}\<newline>\<newline>'',
         indent := indent cg - 4\<rparr>))\<close>
  by (simp add: CodeGen_Coli_dtor_def Let_def buffers_stream_eq seq.simps emit_def
      do_indent_def modify_def tab_size_def)

text \<open>
  Claim C5. The destructor never fails and writes, after an empty line: one
  \<^verbatim>\<open>set_arguments\<close> call that lists the output buffers and then the input buffers (the
  temporary buffers are not read), then the calls \<^verbatim>\<open>gen_isl_ast\<close>,
  \<^verbatim>\<open>gen_halide_stmt\<close>, \<^verbatim>\<open>dump_halide_stmt\<close> and \<^verbatim>\<open>gen_halide_obj\<close> in this order, then
  the closing brace of the function body, one indentation step to the left.
\<close>

theorem CodeGen_Coli_dtor_text:
  \<open>CodeGen_Coli_dtor cg =
     (let ind = replicate (nat (indent cg)) CHR '' ''
      in Inr (cg\<lparr>stream := stream cg @ ''\<newline>''
           @ ind @ func cg @ ''.set_arguments({''
               @ comma_sep (map ((@) ''&'') (output_buffers cg @ input_buffers cg)) @ ''});\<newline>''
           @ ind @ func cg @ ''.gen_isl_ast();\<newline>''
           @ ind @ func cg @ ''.gen_halide_stmt();\<newline>''
           @ ind @ func cg @ ''.dump_halide_stmt();\<newline>''
           @ ind @ func cg @ ''.gen_halide_obj("build/generated_'' @ func cg @ ''_test.o");\<newline>''
           @ replicate (nat (indent cg - 4)) CHR '' '' @ ''}\<newline>\<newline>'',
         indent := indent cg - 4\<rparr>))\<close>
  by (rule CodeGen_Coli_dtor_eq)

section \<open>The substitution map of a loop\<close>

lemma replacements_distinct_names:
  "min_name \<noteq> extent_name \<Longrightarrow> replacements sc min_name extent_name = map_of sc"
proof -
  assume "min_name \<noteq> extent_name"
  then have "filter (\<lambda>b. fst b \<noteq> min_name \<or> fst b \<noteq> extent_name) sc = sc"
    by (induction sc) auto
  then show ?thesis
    by (simp add: replacements_def)
qed

text \<open>
  Claim C1, on the code. In a scope that binds the bounds \<open>a\<close> and \<open>b\<close> of a loop, the
  substitution map of the loop binds \<open>a\<close> and \<open>b\<close> themselves: the filter of the loop
  drops a name only when it is the minimum and the extent at once.
\<close>

theorem replacements_hold_own_bounds:
  "replacements [(''a'', IntImm Int32 0), (''b'', IntImm Int32 4)] ''a'' ''b'' ''a''
     = Some (IntImm Int32 0)
   \<and> replacements [(''a'', IntImm Int32 0), (''b'', IntImm Int32 4)] ''a'' ''b'' ''b''
     = Some (IntImm Int32 4)"
  by (simp add: replacements_def)

text \<open>So the map of that loop is defined on the loop's own minimum and extent.\<close>

theorem replacements_hold_own_bounds_witness:
  "replacements [(''a'', IntImm Int32 0), (''b'', IntImm Int32 4)] ''a'' ''b'' ''a'' \<noteq> None
   \<and> replacements [(''a'', IntImm Int32 0), (''b'', IntImm Int32 4)] ''a'' ''b'' ''b'' \<noteq> None"
  using replacements_hold_own_bounds by simp

section \<open>Invariants of the traversal\<close>

lemma keepsI: "(\<And>cg. J cg \<Longrightarrow> ok_after J (a cg)) \<Longrightarrow> keeps J a"
  by (simp add: keeps_def)

lemma ok_after_seq: "J cg \<Longrightarrow> list_all (keeps J) as \<Longrightarrow> ok_after J (seq as cg)"
proof (induction as arbitrary: cg)
  case Nil
  then show ?case by (simp add: ok_after_def seq.simps)
next
  case (Cons a as)
  then have "ok_after J (a cg)" by (simp add: keeps_def)
  with Cons show ?case
    by (cases "a cg") (auto simp: ok_after_def seq.simps)
qed

lemma ok_after_simps [simp]:
  "ok_after J (Inr cg) = J cg" "ok_after J (Inl (e, cg)) = J cg"
  by (simp_all add: ok_after_def)

lemma ok_after_actions [simp]:
  "ok_after J (emit s cg) = J (cg\<lparr>stream := stream cg @ s\<rparr>)"
  "ok_after J (do_indent cg) = J (cg\<lparr>stream := stream cg @ replicate (nat (indent cg)) CHR '' ''\<rparr>)"
  "ok_after J (modify f cg) = J (f cg)"
  "ok_after J (user_assert c m cg) = J cg"
  "ok_after J (internal_assert c m cg) = J cg"
  "ok_after J (fail e cg) = J cg"
  "ok_after J (emit_type t cg) =
     (case halide_type_to_coli_type_str t of
        Inl e \<Rightarrow> J cg
      | Inr s \<Rightarrow> J (cg\<lparr>stream := stream cg @ s\<rparr>))"
  by (simp_all add: emit_def do_indent_def modify_def user_assert_def internal_assert_def
      fail_def emit_type_def split: sum.splits)

lemma ok_after_bind:
  assumes "ok_after J (a cg)" and "\<And>cg'. J cg' \<longrightarrow> ok_after J (b cg')"
  shows "ok_after J (case a cg of Inl e \<Rightarrow> Inl e | Inr cg' \<Rightarrow> b cg')"
proof (cases "a cg")
  case (Inl e)
  with assms(1) show ?thesis
    by (simp add: ok_after_def)
next
  case (Inr cg')
  with assms(1) have "J cg'"
    by simp
  with assms(2) Inr show ?thesis
    by simp
qed

lemma ok_after_restore:
  assumes "keeps J a" and "\<And>cg ds. J cg \<Longrightarrow> J (cg\<lparr>loop_dims := ds\<rparr>)" and "J cg"
  shows "ok_after J (case a cg of Inl e \<Rightarrow> Inl e
                     | Inr cg' \<Rightarrow> Inr (cg'\<lparr>loop_dims := ds\<rparr>))"
proof (cases "a cg")
  case (Inl x)
  with assms(1,3) show ?thesis
    by (auto simp: keeps_def ok_after_def dest!: spec [of _ cg])
next
  case (Inr cg')
  with assms(1,3) have "J cg'"
    by (auto simp: keeps_def ok_after_def dest!: spec [of _ cg])
  then have "J (cg'\<lparr>loop_dims := ds\<rparr>)"
    by (rule assms(2))
  with Inr show ?thesis
    by (simp add: ok_after_def)
qed

lemma registered_update [simp]:
  "registered n (cg\<lparr>stream := s\<rparr>) = registered n cg"
  "registered n (cg\<lparr>indent := i\<rparr>) = registered n cg"
  "registered n (cg\<lparr>scope := sc\<rparr>) = registered n cg"
  "registered n (cg\<lparr>loop_dims := ds\<rparr>) = registered n cg"
  "registered n (cg\<lparr>constant_list := cs\<rparr>) = registered n cg"
  "registered n (cg\<lparr>output_buffers := bs\<rparr>) = registered n cg"
  "registered n (cg\<lparr>input_buffers := bs\<rparr>) = registered n cg"
  "registered n (cg\<lparr>temporary_buffers := bs\<rparr>) = registered n cg"
  "registered n (cg\<lparr>computation_list := set_insert m (computation_list cg)\<rparr>)
     = (n = m \<or> registered n cg)"
  by (auto simp: registered_def set_insert_def set_insort_key)

lemma registered_exprs:
  "registered n cg \<longrightarrow> ok_after (registered n) (print_expr e cg)"
  "registered n cg \<longrightarrow> ok_after (registered n) (visit_expr e cg)"
  "registered n cg \<longrightarrow> ok_after (registered n) (print_call_args es cg)"
  by (induction e cg and e cg and es cg rule: print_expr_visit_expr_print_call_args.induct)
    (auto intro!: ok_after_seq keepsI split: sum.splits)


lemma keeps_print_expr_registered: "keeps (registered n) (print_expr e)"
  using registered_exprs(1) by (auto simp: keeps_def simp del: print_expr.simps)

lemma registered_define_constant: "keeps (registered n) (define_constant X name val)"
  unfolding keeps_def define_constant_def
  by (auto intro!: ok_after_seq keepsI keeps_print_expr_registered 
      simp del: print_expr.simps split: sum.splits)

lemma registered_print_extents:
  "registered n cg \<longrightarrow> ok_after (registered n) (print_extents bs cg)"
proof (induction bs arbitrary: cg)
  case Nil
  then show ?case by simp
next
  case (Cons r rs)
  then have "keeps (registered n) (print_extents rs)"
    by (simp add: keeps_def)
  then show ?case
    by (auto intro!: ok_after_seq keepsI keeps_print_expr_registered
        simp del: print_expr.simps)
qed

lemma registered_stmts:
  "registered n cg \<longrightarrow> ok_after (registered n) (print_stmt X s cg)"
  "registered n cg \<longrightarrow> ok_after (registered n) (visit_stmt X s cg)"
proof (induction X s cg and X s cg rule: print_stmt_visit_stmt.induct)
  case (9 X name mn ex ft api body cg)
  then show ?case
    using registered_define_constant [unfolded keeps_def]
    by (auto intro!: ok_after_seq keepsI keeps_print_expr_registered
        simp: push_loop_dim_def pop_loop_dim_def Let_def
        simp del: print_expr.simps split: sum.splits option.splits)
next
  case (11 X name "values" args cg)
  then show ?case
    by (auto intro!: ok_after_seq keepsI keeps_print_expr_registered
        simp: Let_def simp del: print_expr.simps split: sum.splits option.splits)
next
  case (12 X name types bounds c body cg)
  then show ?case
    using registered_print_extents
    by (auto intro!: ok_after_seq keepsI
        simp: Let_def simp del: print_expr.simps split: sum.splits option.splits list.splits)
next
  case (8 X nm is_producer b cg)
  from 8 [OF refl] have k: "keeps (registered n) (print_stmt X b)"
    by (simp add: keeps_def)
  show ?case
    by (simp del: print_stmt.simps, intro impI ok_after_seq)
      (auto intro!: keepsI ok_after_restore [OF k] simp del: print_stmt.simps)
qed (auto intro!: ok_after_seq keepsI split: sum.splits option.splits)

section \<open>Duplicate computations\<close>

lemma seq_last_Inr:
  "seq as cg = Inr cg' \<Longrightarrow> as \<noteq> [] \<Longrightarrow> \<exists>c. last as c = Inr cg'"
proof (induction as arbitrary: cg)
  case Nil
  then show ?case by simp
next
  case (Cons a as)
  show ?case
  proof (cases as)
    case Nil
    with Cons.prems show ?thesis
      by (auto simp: seq.simps split: sum.splits)
  next
    case (Cons b bs)
    with Cons.prems Cons.IH show ?thesis
      by (auto simp: seq.simps(2) [of a] split: sum.splits)
  qed
qed

lemma Provide_registers:
  assumes "visit_stmt X (Provide name vs as) cg = Inr cg'"
  shows "registered name cg'"
  using assms
  apply (simp del: print_expr.simps)
  apply (drule seq_last_Inr, simp)
  apply (clarsimp simp: Let_def simp del: print_expr.simps)
  apply (drule seq_last_Inr, simp)
  apply (clarsimp simp: modify_def)
  done

lemma Provide_duplicate:
  "registered name cg \<Longrightarrow>
     visit_stmt X (Provide name vs as) cg =
       Inl (internal_error ''Duplicate computation is not currently supported.\<newline>'', cg)"
  by (simp add: seq.simps(2) internal_assert_def registered_def)

text \<open>
  Claim C3, as the code has it. Once a store to a destination has been translated, a
  later store to the same destination, after any statement translated in between,
  aborts the translation at its first check with the message of a duplicate
  computation; the check is an \<^verbatim>\<open>internal_assert\<close>, so the error is an internal
  one.
\<close>

theorem second_Provide_fails:
  assumes "visit_stmt X (Provide name values1 args1) cg = Inr cg1"
    and "print_stmt X s cg1 = Inr cg2"
  shows "visit_stmt X (Provide name values2 args2) cg2 =
           Inl (internal_error ''Duplicate computation is not currently supported.\<newline>'', cg2)"
proof -
  from assms(1) have "registered name cg1"
    by (rule Provide_registers)
  with registered_stmts(1) [of name cg1 X s] assms(2) have "registered name cg2"
    by (simp del: print_stmt.simps)
  then show ?thesis
    by (rule Provide_duplicate)
qed

text \<open>The sample store, an evaluation, and the sample store again.\<close>

theorem second_Provide_fails_witness:
  "\<exists>cg1. visit_stmt plain_externs sample_provide sample_generator = Inr cg1
     \<and> print_stmt plain_externs (Evaluate (IntImm Int32 0)) cg1 = Inr cg1
     \<and> visit_stmt plain_externs sample_provide cg1 =
         Inl (internal_error ''Duplicate computation is not currently supported.\<newline>'', cg1)"
proof -
  have "\<exists>cg'. visit_stmt plain_externs sample_provide sample_generator = Inr cg'"
    by (simp add: run_simps)
  then obtain cg1 where r: "visit_stmt plain_externs sample_provide sample_generator = Inr cg1"
    by blast
  have e: "print_stmt plain_externs (Evaluate (IntImm Int32 0)) cg1 = Inr cg1"
    by simp
  have "visit_stmt plain_externs sample_provide cg1 =
          Inl (internal_error ''Duplicate computation is not currently supported.\<newline>'', cg1)"
    unfolding sample_provide_def
    by (rule second_Provide_fails [OF r [unfolded sample_provide_def] e])
  with r e show ?thesis
    by blast
qed

text \<open>
  The claim as stated fails: in the sequence of two sample stores the second aborts
  with an internal error, not with a user-facing one.
\<close>

theorem duplicate_Provide_internal_error:
  "failure (print_stmt plain_externs (Block sample_provide (Some sample_provide))
      sample_generator)
   = Some (internal_error ''Duplicate computation is not currently supported.\<newline>'')"
  by (simp add: run_simps)

section \<open>No finalized output on abort\<close>

lemma tail_state_snoc: "tail_state (s @ [x]) = brace_step (tail_state s) x"
  by (simp add: tail_state_def)

lemma tail_state_suffix:
  "(tail_state s = 1 \<longleftrightarrow> suffix [CHR ''}''] s)
   \<and> (tail_state s = 2 \<longleftrightarrow> suffix ([CHR ''}''] @ [CHR 0x0A]) s)
   \<and> (tail_state s = 3 \<longleftrightarrow> suffix (([CHR ''}''] @ [CHR 0x0A]) @ [CHR 0x0A]) s)"
proof (induction s rule: rev_induct)
  case Nil
  then show ?case by (simp add: tail_state_def)
next
  case (snoc x xs)
  then show ?case
    unfolding tail_state_snoc snoc_suffix_snoc
    by (auto simp del: append.simps simp: suffix_def)
qed

lemma tail_state_le: "tail_state s \<le> 3"
  by (induction s rule: rev_induct) (simp_all add: tail_state_def)

lemma body_open_iff: "body_open s \<longleftrightarrow> tail_state s = 0"
  using tail_state_suffix [of s] tail_state_le [of s] by (auto simp: body_open_def)

lemma closes_body_iff: "closes_body s \<longleftrightarrow> tail_state s = 3"
  using tail_state_suffix [of s] by (simp add: closes_body_def)


lemma foldl_brace_step_indent [simp]:
  "foldl brace_step q (replicate k CHR '' '') = (if k = 0 then q else 0)"
  by (induction k arbitrary: q) auto

lemma type_str_tail [simp]:
  "halide_type_to_coli_type_str t = Inr s \<Longrightarrow> foldl brace_step q s = 0"
  by (auto simp: halide_type_to_coli_type_str_def split: if_splits)

lemma infix_text_tail [simp]: "foldl brace_step q (infix_text op) = 0"
  by (cases op) auto

lemma unclosed_update [simp]:
  "unclosed (cg\<lparr>indent := i\<rparr>) = unclosed cg"
  "unclosed (cg\<lparr>scope := sc\<rparr>) = unclosed cg"
  "unclosed (cg\<lparr>loop_dims := ds\<rparr>) = unclosed cg"
  "unclosed (cg\<lparr>computation_list := cs\<rparr>) = unclosed cg"
  "unclosed (cg\<lparr>constant_list := cs\<rparr>) = unclosed cg"
  "unclosed (cg\<lparr>output_buffers := bs\<rparr>) = unclosed cg"
  "unclosed (cg\<lparr>input_buffers := bs\<rparr>) = unclosed cg"
  "unclosed (cg\<lparr>temporary_buffers := bs\<rparr>) = unclosed cg"
  by (simp_all add: unclosed_def)

lemma unclosed_emit [simp]:
  "unclosed cg \<Longrightarrow> unclosed (cg\<lparr>stream := stream cg @ c\<rparr>) = (foldl brace_step 0 c = 0)"
  by (simp add: unclosed_def tail_state_def)

lemma unclosed_exprs:
  "unclosed cg \<longrightarrow> ok_after unclosed (print_expr e cg)"
  "unclosed cg \<longrightarrow> ok_after unclosed (visit_expr e cg)"
  "unclosed cg \<longrightarrow> ok_after unclosed (print_call_args es cg)"
  by (induction e cg and e cg and es cg rule: print_expr_visit_expr_print_call_args.induct)
    (auto intro!: ok_after_seq keepsI split: sum.splits)


lemma keeps_print_expr_unclosed: "keeps unclosed (print_expr e)"
  using unclosed_exprs(1) by (auto simp: keeps_def simp del: print_expr.simps)

lemma unclosed_define_constant: "keeps unclosed (define_constant X name val)"
  unfolding keeps_def define_constant_def
  by (auto intro!: ok_after_seq keepsI keeps_print_expr_unclosed
      simp del: print_expr.simps split: sum.splits)

lemma unclosed_print_extents:
  "unclosed cg \<longrightarrow> ok_after unclosed (print_extents bs cg)"
proof (induction bs arbitrary: cg)
  case Nil
  then show ?case by simp
next
  case (Cons r rs)
  then have "keeps unclosed (print_extents rs)"
    by (simp add: keeps_def)
  then show ?case
    by (auto intro!: ok_after_seq keepsI keeps_print_expr_unclosed
        simp del: print_expr.simps)
qed

lemma unclosed_stmts:
  "unclosed cg \<longrightarrow> ok_after unclosed (print_stmt X s cg)"
  "unclosed cg \<longrightarrow> ok_after unclosed (visit_stmt X s cg)"
proof (induction X s cg and X s cg rule: print_stmt_visit_stmt.induct)
  case (9 X name mn ex ft api body cg)
  then show ?case
    using unclosed_define_constant [unfolded keeps_def]
    by (auto intro!: ok_after_seq keepsI keeps_print_expr_unclosed
        simp: push_loop_dim_def pop_loop_dim_def Let_def
        simp del: print_expr.simps split: sum.splits option.splits)
next
  case (11 X name "values" args cg)
  then show ?case
    by (auto intro!: ok_after_seq keepsI keeps_print_expr_unclosed
        simp: Let_def simp del: print_expr.simps split: sum.splits option.splits)
next
  case (12 X name types bounds c body cg)
  then show ?case
    using unclosed_print_extents
    by (auto intro!: ok_after_seq keepsI
        simp: Let_def simp del: print_expr.simps split: sum.splits option.splits list.splits)
next
  case (8 X nm is_producer b cg)
  from 8 [OF refl] have k: "keeps unclosed (print_stmt X b)"
    by (simp add: keeps_def)
  show ?case
    by (simp del: print_stmt.simps, intro impI ok_after_seq)
      (auto intro!: keepsI ok_after_restore [OF k] simp del: print_stmt.simps)
qed (auto intro!: ok_after_seq keepsI split: sum.splits option.splits)


lemma unclosed_output_dims_loop:
  "unclosed (snd (output_dims_loop f i es (sz, cg))) = unclosed cg"
  by (induction es arbitrary: i sz cg) (simp_all add: Let_def)

lemma unclosed_input_dims_loop:
  "unclosed (snd (snd (input_dims_loop i es (dd, sz, cg)))) = unclosed cg"
  by (induction es arbitrary: i dd sz cg) (simp_all add: Let_def push_loop_dim_def)

lemma unclosed_pop_loop_dims: "unclosed ((pop_loop_dim ^^ k) cg) = unclosed cg"
  by (induction k) (simp_all add: pop_loop_dim_def)

lemma unclosed_allocate_output: "keeps unclosed (allocate_output x)"
  unfolding keeps_def allocate_output_def
  by (auto intro!: ok_after_seq keepsI simp: Let_def unclosed_output_dims_loop
      split: sum.splits)

lemma unclosed_allocate_outputs:
  "unclosed cg \<longrightarrow> ok_after unclosed (allocate_outputs xs cg)"
proof (induction xs arbitrary: cg)
  case Nil
  then show ?case by simp
next
  case (Cons x xs)
  show ?case
  proof
    assume "unclosed cg"
    with unclosed_allocate_output [of x] have "ok_after unclosed (allocate_output x cg)"
      by (simp add: keeps_def)
    then show "ok_after unclosed (allocate_outputs (x # xs) cg)"
      using Cons.IH by (simp add: ok_after_bind)
  qed
qed

lemma unclosed_bind_input: "keeps unclosed (bind_input X x)"
  unfolding keeps_def bind_input_def
  by (auto intro!: ok_after_seq keepsI
      simp: Let_def unclosed_input_dims_loop unclosed_pop_loop_dims split: sum.splits)

lemma unclosed_bind_inputs:
  "unclosed cg \<longrightarrow> ok_after unclosed (bind_inputs X xs cg)"
proof (induction xs arbitrary: cg)
  case Nil
  then show ?case by simp
next
  case (Cons x xs)
  show ?case
  proof
    assume "unclosed cg"
    with unclosed_bind_input [of X x] have "ok_after unclosed (bind_input X x cg)"
      by (simp add: keeps_def)
    then show "ok_after unclosed (bind_inputs X (x # xs) cg)"
      using Cons.IH by (simp add: ok_after_bind)
  qed
qed

lemma headers_tail [simp]: "foldl brace_step q headers = 0"
  by (simp add: headers_def)

lemma unclosed_ctor:
  assumes "tail_state dest = 0"
  shows "ok_after unclosed
           (CodeGen_Coli_ctor X dest pipeline_name outputs output_buffer_extents
              output_buffer_types inputs input_buffer_extents input_buffer_types)"
proof -
  have "unclosed (CodeGen_Coli_new dest pipeline_name)"
    using assms by (simp add: unclosed_def CodeGen_Coli_new_def)
  then show ?thesis
    unfolding CodeGen_Coli_ctor_def
    using unclosed_allocate_outputs unclosed_bind_inputs
    by (intro ok_after_seq) (auto intro!: keepsI)
qed

lemma dtor_closes: "\<exists>cg'. CodeGen_Coli_dtor cg = Inr cg' \<and> closes_body (stream cg')"
  by (simp add: CodeGen_Coli_dtor_eq closes_body_iff Let_def tail_state_def)

text \<open>
  Claim C2. Whenever the translation aborts, in the constructor or during the traversal,
  with a user-facing or an internal error, the output stream has not been finalized: on
  a stream that was open at the start, the text at the abort does not end with the line
  that closes the body of the generated function, so what was written is the beginning
  of a program and no program. A translation that returns ends with that line.
\<close>

theorem abort_leaves_body_open:
  assumes "body_open dest"
  shows "case print_to_coli X s dest pipeline_name outputs output_buffer_extents
               output_buffer_types inputs input_buffer_extents input_buffer_types of
           Inl x \<Rightarrow> \<not> closes_body (stream (snd x))
         | Inr cg \<Rightarrow> closes_body (stream cg)"
proof -
  let ?ctor = "CodeGen_Coli_ctor X dest pipeline_name outputs output_buffer_extents
                 output_buffer_types inputs input_buffer_extents input_buffer_types"
  have open_state: "\<not> closes_body (stream cg)" if "unclosed cg" for cg
    using that by (simp add: closes_body_iff unclosed_def)
  from assms have c: "ok_after unclosed ?ctor"
    by (intro unclosed_ctor) (simp add: body_open_iff)
  show ?thesis
  proof (cases ?ctor)
    case (Inl x)
    with c show ?thesis
      by (simp add: print_to_coli_def ok_after_def open_state)
  next
    case (Inr cg)
    with c have "unclosed cg"
      by simp
    then have t: "ok_after unclosed (print_stmt X (normalize_stmt s) cg)"
      using unclosed_stmts(1) by blast
    show ?thesis
    proof (cases "print_stmt X (normalize_stmt s) cg")
      case (Inl x)
      with t Inr show ?thesis
        by (simp add: print_to_coli_def seq.simps ok_after_def open_state
            del: print_stmt.simps)
    next
      case (Inr cg')
      with \<open>?ctor = Inr cg\<close> dtor_closes [of cg'] show ?thesis
        by (auto simp: print_to_coli_def seq.simps simp del: print_stmt.simps)
    qed
  qed
qed


text \<open>
  A store of a string literal, translated on an empty stream, aborts with the user error
  of the string literal.
\<close>

theorem abort_leaves_body_open_witness:
  "body_open []
   \<and> failure (print_to_coli plain_externs sample_string_store [] ''f''
         [\<lparr>function_name = ''f'', function_args = [''x'']\<rparr>] [[4]] [Int32] [] [] [])
       = Some (user_error ''Conversion of StringImm to COLi is not supported.\<newline>'')
   \<and> (case print_to_coli plain_externs sample_string_store [] ''f''
         [\<lparr>function_name = ''f'', function_args = [''x'']\<rparr>] [[4]] [Int32] [] [] [] of
        Inl x \<Rightarrow> \<not> closes_body (stream (snd x))
      | Inr cg \<Rightarrow> closes_body (stream cg))"
proof -
  have h: "body_open []"
    by (simp add: body_open_def)
  have f: "failure (print_to_coli plain_externs sample_string_store [] ''f''
         [\<lparr>function_name = ''f'', function_args = [''x'']\<rparr>] [[4]] [Int32] [] [] [])
       = Some (user_error ''Conversion of StringImm to COLi is not supported.\<newline>'')"
    by (simp add: run_simps print_to_coli_def CodeGen_Coli_ctor_def allocate_output_def
        sample_string_store_def)
  from abort_leaves_body_open [OF h] h f show ?thesis
    by blast
qed

end
